theory Spec2Isabelle
  imports Main
begin

section \<open>Python values and the interpreter's library\<close>

text \<open>
  A Python \<open>str\<close> is modelled by its UTF-8 encoding, a \<open>string\<close> of bytes: this is
  what \<open>print\<close> writes to standard output, and no script takes the length of a
  \<open>str\<close>. Symbols outside ASCII that occur in the scripts' literals are spelled
  out as their UTF-8 bytes.
\<close>

type_synonym bytes = string

definition clipboard :: string where \<comment> \<open>U+1F4CB\<close>
  "clipboard = [CHR 0xF0, CHR 0x9F, CHR 0x93, CHR 0x8B]"

definition page :: string where \<comment> \<open>U+1F4C4\<close>
  "page = [CHR 0xF0, CHR 0x9F, CHR 0x93, CHR 0x84]"

definition magnifier :: string where \<comment> \<open>U+1F50D\<close>
  "magnifier = [CHR 0xF0, CHR 0x9F, CHR 0x94, CHR 0x8D]"

definition chart :: string where \<comment> \<open>U+1F4CA\<close>
  "chart = [CHR 0xF0, CHR 0x9F, CHR 0x93, CHR 0x8A]"

definition warning_sign :: string where \<comment> \<open>U+26A0 U+FE0F\<close>
  "warning_sign = [CHR 0xE2, CHR 0x9A, CHR 0xA0, CHR 0xEF, CHR 0xB8, CHR 0x8F]"

definition cross_mark :: string where \<comment> \<open>U+274C\<close>
  "cross_mark = [CHR 0xE2, CHR 0x9D, CHR 0x8C]"

definition check_mark :: string where \<comment> \<open>U+2705\<close>
  "check_mark = [CHR 0xE2, CHR 0x9C, CHR 0x85]"

text \<open>The decimal numeral an f-string inserts for a Python \<open>int\<close>.\<close>

fun str_nat :: "nat \<Rightarrow> string" where
  "str_nat n =
     (if n < 10 then [char_of (48 + n)]
      else str_nat (n div 10) @ [char_of (48 + n mod 10)])"

declare str_nat.simps [simp del]

definition str_int :: "int \<Rightarrow> string" where
  "str_int i = (if i < 0 then CHR ''-'' # str_nat (nat (- i)) else str_nat (nat i))"

text \<open>
  The values \<open>json.loads\<close> can return. How a Python \<open>float\<close> is represented plays no
  part in the scripts, so its type is a parameter.
\<close>

datatype 'f pyval =
    PyNone
  | PyBool bool
  | PyInt int
  | PyFloat 'f
  | PyStr string
  | PyList "'f pyval list"
  | PyDict "(string \<times> 'f pyval) list"


text \<open>
  The three library calls of the inspector are not code of the repository; they are
  parameters of the model.
  \<^item> \<open>decode_utf8 b\<close> is \<open>b.decode('utf-8')\<close>; \<open>None\<close> stands for \<open>UnicodeDecodeError\<close>.
  \<^item> \<open>json_loads s\<close> is \<open>json.loads(s)\<close>; \<open>None\<close> stands for \<open>json.JSONDecodeError\<close>.
  \<^item> \<open>json_dumps v\<close> is \<open>json.dumps(v, indent=2)\<close>, which returns a \<open>str\<close> for every
    value that \<open>json.loads\<close> produced.
\<close>

record 'f pylib =
  decode_utf8 :: "bytes \<Rightarrow> string option"
  json_loads :: "string \<Rightarrow> 'f pyval option"
  json_dumps :: "'f pyval \<Rightarrow> string"

section \<open>The object store client\<close>

text \<open>
  The exceptions a run can meet. \<open>ClientError code text\<close> is botocore's \<open>ClientError\<close>,
  raised when the store answers a call with an error: \<open>code\<close> is
  \<open>e.response['Error']['Code']\<close> and \<open>text\<close> is \<open>str(e)\<close>. \<open>OtherException\<close> is any
  exception a client call raises that is not a \<open>ClientError\<close>.
\<close>

datatype exn =
    ClientError string string
  | UnicodeDecodeError
  | OtherException string

record object_entry =
  Key :: string
  Size :: int

text \<open>The response of \<open>list_objects_v2\<close>: the key \<open>'Contents'\<close> may be absent.\<close>

record listing =
  Contents :: "object_entry list option"

text \<open>
  The store is external and owns its state \<open>'s\<close>. Every client method takes the state,
  returns the state after the call, and either a value (\<open>Inr\<close>) or the exception it
  raised (\<open>Inl\<close>). \<open>list_buckets\<close> gives the \<open>'Name'\<close> of each entry of \<open>'Buckets'\<close>;
  \<open>get_object\<close> gives what \<open>response['Body'].read()\<close> returns.
\<close>

record 's s3_client =
  create_bucket :: "string \<Rightarrow> 's \<Rightarrow> (exn + unit) \<times> 's"
  list_buckets :: "'s \<Rightarrow> (exn + string list) \<times> 's"
  list_objects_v2 :: "string \<Rightarrow> 's \<Rightarrow> (exn + listing) \<times> 's"
  get_object :: "string \<Rightarrow> string \<Rightarrow> 's \<Rightarrow> (exn + bytes) \<times> 's"

datatype call =
    CreateBucket string
  | ListBuckets
  | ListObjectsV2 string
  | GetObject string string

text \<open>Calls that only read from the store.\<close>

fun read_only :: "call \<Rightarrow> bool" where
  "read_only (CreateBucket b) = False"
| "read_only ListBuckets = True"
| "read_only (ListObjectsV2 b) = True"
| "read_only (GetObject b k) = True"

text \<open>
  What a run has done so far: the arguments of its \<open>print\<close> calls in order (each is
  written followed by a newline), the client calls it has issued in order, and the
  state of the store.
\<close>

record 's run =
  printed :: "string list"
  calls :: "call list"
  store :: 's

definition start :: "'s \<Rightarrow> 's run" where
  "start s = \<lparr>printed = [], calls = [], store = s\<rparr>"

definition say :: "string list \<Rightarrow> 's run \<Rightarrow> 's run" where
  "say ls r = r\<lparr>printed := printed r @ ls\<rparr>"

definition issue :: "call \<Rightarrow> 's \<Rightarrow> 's run \<Rightarrow> 's run" where
  "issue cl s' r = r\<lparr>calls := calls r @ [cl], store := s'\<rparr>"

text \<open>How a script ends: it returns, or an exception leaves it uncaught.\<close>

datatype outcome = Returned | Uncaught exn

definition bucket_name :: string where
  "bucket_name = ''test-data-lake''"

section \<open>check_s3_data.py\<close>

definition rule80 :: string where \<comment> \<open>\<open>"=" * 80\<close>\<close>
  "rule80 = replicate 80 CHR ''=''"

definition files_header :: string where
  "files_header = clipboard @ '' Files in S3 bucket:''"

definition file_line :: "object_entry \<Rightarrow> string" where
  "file_line obj =
     ''  '' @ page @ '' '' @ Key obj @ '' (size: '' @ str_int (Size obj) @ '' bytes)''"

definition content_header :: "string \<Rightarrow> string" where
  "content_header key = CHR 0x0A # magnifier @ '' Content of '' @ key @ '':''"

definition structure_line :: string where
  "structure_line = chart @ '' Structure: JSON Array''"

definition records_line :: "nat \<Rightarrow> string" where
  "records_line n = chart @ '' Number of records: '' @ str_nat n"

definition sample_line :: string where
  "sample_line = page @ '' Sample record:''"

definition not_json_line :: string where
  "not_json_line = warning_sign @ ''  Not valid JSON, showing raw content:''"

definition footer :: string where
  "footer = CHR 0x0A # rule80"

definition access_error_line :: "string \<Rightarrow> string" where
  "access_error_line text = cross_mark @ '' Error accessing S3: '' @ text"

text \<open>\<open>len(data) if isinstance(data, list) else 1\<close>\<close>

fun record_count :: "'f pyval \<Rightarrow> nat" where
  "record_count (PyList xs) = length xs"
| "record_count v = 1"

text \<open>
  Lines 43 to 48: the first record of a list that has one, the whole value otherwise.
\<close>

fun show_records :: "'f pylib \<Rightarrow> 'f pyval \<Rightarrow> string list" where
  "show_records lib (PyList (x # xs)) = [sample_line, json_dumps lib x]"
| "show_records lib v = [json_dumps lib v]"

text \<open>Lines 38 to 52: what is printed for the decoded content of one object.\<close>

definition show_content :: "'f pylib \<Rightarrow> string \<Rightarrow> string list" where
  "show_content lib content =
     (case json_loads lib content of
        Some data \<Rightarrow>
          [structure_line, records_line (record_count data)] @ show_records lib data
      | None \<Rightarrow> [not_json_line, content])"

text \<open>
  Lines 28 to 52, the second loop. The result is the exception that left the loop, if
  any, with what the run had done when it was raised.
\<close>

fun inspect_objects ::
  "'f pylib \<Rightarrow> 's s3_client \<Rightarrow> object_entry list \<Rightarrow> 's run \<Rightarrow> exn option \<times> 's run" where
  "inspect_objects lib c [] r = (None, r)"
| "inspect_objects lib c (obj # objs) r =
     (let key = Key obj;
          r1 = say [content_header key, rule80] r;
          (response, s') = get_object c bucket_name key (store r1);
          r2 = issue (GetObject bucket_name key) s' r1
      in case response of
           Inl e \<Rightarrow> (Some e, r2)
         | Inr body \<Rightarrow>
             (case decode_utf8 lib body of
                None \<Rightarrow> (Some UnicodeDecodeError, r2)
              | Some content \<Rightarrow>
                  inspect_objects lib c objs (say (show_content lib content) r2)))"

text \<open>\<open>objects.get('Contents', [])\<close>\<close>

definition get_contents :: "listing \<Rightarrow> object_entry list" where
  "get_contents objects = (case Contents objects of None \<Rightarrow> [] | Some objs \<Rightarrow> objs)"

text \<open>Lines 21 to 54, the body of the outer \<open>try\<close>.\<close>

definition check_body :: "'f pylib \<Rightarrow> 's s3_client \<Rightarrow> 's \<Rightarrow> exn option \<times> 's run" where
  "check_body lib c s =
     (let (response, s') = list_objects_v2 c bucket_name s;
          r0 = issue (ListObjectsV2 bucket_name) s' (start s)
      in case response of
           Inl e \<Rightarrow> (Some e, r0)
         | Inr objects \<Rightarrow>
             (let contents = get_contents objects;
                  r1 = say (files_header # map file_line contents) r0
              in case inspect_objects lib c contents r1 of
                   (Some e, r2) \<Rightarrow> (Some e, r2)
                 | (None, r2) \<Rightarrow> (None, say [footer] r2)))"

text \<open>Lines 19 to 57: only a \<open>ClientError\<close> is caught.\<close>

definition check_s3_data :: "'f pylib \<Rightarrow> 's s3_client \<Rightarrow> 's \<Rightarrow> outcome \<times> 's run" where
  "check_s3_data lib c s =
     (case check_body lib c s of
        (None, r) \<Rightarrow> (Returned, r)
      | (Some (ClientError code text), r) \<Rightarrow> (Returned, say [access_error_line text] r)
      | (Some e, r) \<Rightarrow> (Uncaught e, r))"

section \<open>create_bucket.py\<close>

definition created_line :: string where
  "created_line = check_mark @ '' Successfully created bucket: '' @ bucket_name"

definition available_header :: string where
  "available_header = clipboard @ '' Available buckets:''"

definition bucket_line :: "string \<Rightarrow> string" where
  "bucket_line name = ''  - '' @ name"

definition exists_line :: string where
  "exists_line = check_mark @ '' Bucket '' @ bucket_name @ '' already exists''"

definition create_error_line :: "string \<Rightarrow> string" where
  "create_error_line text = cross_mark @ '' Error creating bucket: '' @ text"

text \<open>Lines 20 to 27, the body of the \<open>try\<close>.\<close>

definition create_body :: "'s s3_client \<Rightarrow> 's \<Rightarrow> exn option \<times> 's run" where
  "create_body c s =
     (let (created, s1) = create_bucket c bucket_name s;
          r1 = issue (CreateBucket bucket_name) s1 (start s)
      in case created of
           Inl e \<Rightarrow> (Some e, r1)
         | Inr u \<Rightarrow>
             (let r2 = say [created_line] r1;
                  (buckets, s2) = list_buckets c (store r2);
                  r3 = issue ListBuckets s2 r2
              in case buckets of
                   Inl e \<Rightarrow> (Some e, r3)
                 | Inr names \<Rightarrow> (None, say (available_header # map bucket_line names) r3)))"

text \<open>Lines 18 to 33.\<close>

definition create_s3_bucket :: "'s s3_client \<Rightarrow> 's \<Rightarrow> outcome \<times> 's run" where
  "create_s3_bucket c s =
     (case create_body c s of
        (None, r) \<Rightarrow> (Returned, r)
      | (Some (ClientError code text), r) \<Rightarrow>
          (Returned,
           if code = ''BucketAlreadyOwnedByYou'' then say [exists_line] r
           else say [create_error_line text] r)
      | (Some e, r) \<Rightarrow> (Uncaught e, r))"

section \<open>A store and a library for the examples\<close>

text \<open>
  An in-memory store: its buckets in creation order, each with its objects in listing
  order. It answers the four calls the way the store of the scripts does: creating a
  bucket that exists reports \<open>BucketAlreadyOwnedByYou\<close>, the listing of a bucket
  without objects has no \<open>'Contents'\<close>, and reading does not change the store.
\<close>

type_synonym mem_store = "(string \<times> (string \<times> bytes) list) list"

definition error_text :: "string \<Rightarrow> string \<Rightarrow> string \<Rightarrow> string" where
  "error_text code operation message =
     ''An error occurred ('' @ code @ '') when calling the '' @ operation @
     '' operation: '' @ message"

definition no_such_bucket :: "string \<Rightarrow> exn" where
  "no_such_bucket operation =
     ClientError ''NoSuchBucket''
       (error_text ''NoSuchBucket'' operation ''The specified bucket does not exist'')"

definition access_denied :: "string \<Rightarrow> exn" where
  "access_denied operation =
     ClientError ''AccessDenied'' (error_text ''AccessDenied'' operation ''Access Denied.'')"

definition already_owned_text :: string where
  "already_owned_text =
     error_text ''BucketAlreadyOwnedByYou'' ''CreateBucket''
       ''Your previous request to create the named bucket succeeded and you already own it.''"

definition mem_create_bucket :: "string \<Rightarrow> mem_store \<Rightarrow> (exn + unit) \<times> mem_store" where
  "mem_create_bucket b s =
     (if b \<in> set (map fst s)
      then (Inl (ClientError ''BucketAlreadyOwnedByYou'' already_owned_text), s)
      else (Inr (), s @ [(b, [])]))"

definition mem_list_buckets :: "mem_store \<Rightarrow> (exn + string list) \<times> mem_store" where
  "mem_list_buckets s = (Inr (map fst s), s)"

definition mem_entry :: "string \<times> bytes \<Rightarrow> object_entry" where
  "mem_entry kv = \<lparr>Key = fst kv, Size = int (length (snd kv))\<rparr>"

definition mem_list_objects_v2 :: "string \<Rightarrow> mem_store \<Rightarrow> (exn + listing) \<times> mem_store" where
  "mem_list_objects_v2 b s =
     (case map_of s b of
        None \<Rightarrow> (Inl (no_such_bucket ''ListObjectsV2''), s)
      | Some objs \<Rightarrow>
          (Inr \<lparr>Contents = (if objs = [] then None else Some (map mem_entry objs))\<rparr>, s))"

definition mem_get_object :: "string \<Rightarrow> string \<Rightarrow> mem_store \<Rightarrow> (exn + bytes) \<times> mem_store" where
  "mem_get_object b k s =
     (case map_of s b of
        None \<Rightarrow> (Inl (no_such_bucket ''GetObject''), s)
      | Some objs \<Rightarrow>
          (case map_of objs k of
             None \<Rightarrow> (Inl (ClientError ''NoSuchKey''
                         (error_text ''NoSuchKey'' ''GetObject'' ''The specified key does not exist.'')), s)
           | Some body \<Rightarrow> (Inr body, s)))"

definition mem_client :: "mem_store s3_client" where
  "mem_client =
     \<lparr>create_bucket = mem_create_bucket, list_buckets = mem_list_buckets,
      list_objects_v2 = mem_list_objects_v2, get_object = mem_get_object\<rparr>"








text \<open>
  The library on the texts of the examples: \<open>json.loads\<close> of the two JSON texts and of
  \<open>[]\<close>, any other text being no JSON; \<open>json.dumps(v, indent=2)\<close> of the two values
  that the examples print. The texts are ASCII, which \<open>decode\<close> returns as they are.
\<close>

definition id_array :: string where
  \<open>id_array = ''[{"id":1},{"id":2},{"id":3}]''\<close>

definition id_object :: string where
  \<open>id_object = ''{"id":1}''\<close>

definition id_record :: "int \<Rightarrow> unit pyval" where
  "id_record i = PyDict [(''id'', PyInt i)]"

definition example_loads :: "string \<Rightarrow> unit pyval option" where
  "example_loads =
     map_of [(id_array, PyList [id_record 1, id_record 2, id_record 3]),
             (id_object, id_record 1),
             (''[]'', PyList [])]"

definition example_dumps :: "unit pyval \<Rightarrow> string" where
  \<open>example_dumps v =
     (if v = id_record 1 then ''{\<newline>  "id": 1\<newline>}''
      else if v = PyList [] then ''[]''
      else [])\<close>

definition example_lib :: "unit pylib" where
  "example_lib =
     \<lparr>decode_utf8 = Some, json_loads = example_loads, json_dumps = example_dumps\<rparr>"

text \<open>
  The bucket of the scripts with the given objects, and the buckets of the examples.
\<close>

definition example_bucket :: "(string \<times> bytes) list \<Rightarrow> mem_store" where
  "example_bucket objs = [(bucket_name, objs)]"

definition two_objects :: mem_store where
  "two_objects = example_bucket [(''a.json'', id_array), (''b.txt'', ''hello world'')]"



section \<open>The inspection loop\<close>





lemma inspect_calls:
  "\<exists>n. calls (snd (inspect_objects lib c objs r)) =
        calls r @ map (\<lambda>obj. GetObject bucket_name (Key obj)) (take n objs)"
proof (induction objs arbitrary: r)
  case Nil
  show ?case by simp
next
  case (Cons obj objs)
  show ?case
  proof (cases "get_object c bucket_name (Key obj) (store (say [content_header (Key obj), rule80] r))")
    case (Pair response s')
    show ?thesis
    proof (cases response)
      case (Inl e)
      with Pair have "calls (snd (inspect_objects lib c (obj # objs) r)) =
          calls r @ map (\<lambda>obj. GetObject bucket_name (Key obj)) (take 1 (obj # objs))"
        by (simp add: say_def issue_def Let_def)
      then show ?thesis by blast
    next
      case (Inr body)
      show ?thesis
      proof (cases "decode_utf8 lib body")
        case None
        with Pair Inr have "calls (snd (inspect_objects lib c (obj # objs) r)) =
            calls r @ map (\<lambda>obj. GetObject bucket_name (Key obj)) (take 1 (obj # objs))"
          by (simp add: say_def issue_def Let_def)
        then show ?thesis by blast
      next
        case (Some content)
        from Cons.IH obtain n where
          "calls (snd (inspect_objects lib c objs
             (say (show_content lib content)
               (issue (GetObject bucket_name (Key obj)) s'
                 (say [content_header (Key obj), rule80] r))))) =
           calls (say (show_content lib content)
               (issue (GetObject bucket_name (Key obj)) s'
                 (say [content_header (Key obj), rule80] r))) @
           map (\<lambda>obj. GetObject bucket_name (Key obj)) (take n objs)"
          by blast
        with Pair Inr Some have "calls (snd (inspect_objects lib c (obj # objs) r)) =
            calls r @ map (\<lambda>obj. GetObject bucket_name (Key obj)) (take (Suc n) (obj # objs))"
          by (simp add: say_def issue_def Let_def)
        then show ?thesis by blast
      qed
    qed
  qed
qed

lemma inspect_store:
  assumes "\<And>k t. snd (get_object c bucket_name k t) = t"
  shows "store (snd (inspect_objects lib c objs r)) = store r"
proof (induction objs arbitrary: r)
  case Nil
  show ?case by simp
next
  case (Cons obj objs)
  have "snd (get_object c bucket_name (Key obj) (store r)) = store r"
    by (rule assms)
  then show ?case
    by (cases "get_object c bucket_name (Key obj) (store r)")
       (simp add: say_def issue_def Let_def Cons.IH split: sum.splits option.splits)
qed



section \<open>The body and the handler of the inspector\<close>

lemma check_s3_data_listing_error:
  assumes "list_objects_v2 c bucket_name s = (Inl e, s1)"
  shows "check_body lib c s = (Some e, \<lparr>printed = [], calls = [ListObjectsV2 bucket_name], store = s1\<rparr>)"
  using assms by (simp add: check_body_def issue_def start_def)

lemma check_body_listed:
  assumes "list_objects_v2 c bucket_name s = (Inr objects, s1)"
  shows "check_body lib c s =
     (case inspect_objects lib c (get_contents objects)
             \<lparr>printed = files_header # map file_line (get_contents objects),
              calls = [ListObjectsV2 bucket_name], store = s1\<rparr> of
        (Some e, r2) \<Rightarrow> (Some e, r2)
      | (None, r2) \<Rightarrow> (None, say [footer] r2))"
  using assms by (simp add: check_body_def issue_def start_def say_def Let_def)


lemma check_s3_data_calls:
  "calls (snd (check_s3_data lib c s)) = calls (snd (check_body lib c s))"
  by (cases "check_body lib c s")
     (auto simp: check_s3_data_def say_def split: option.splits exn.splits)

lemma check_s3_data_store:
  "store (snd (check_s3_data lib c s)) = store (snd (check_body lib c s))"
  by (cases "check_body lib c s")
     (auto simp: check_s3_data_def say_def split: option.splits exn.splits)

section \<open>Runs of the examples\<close>

lemmas mem_defs = mem_client_def mem_create_bucket_def mem_list_buckets_def
  mem_list_objects_v2_def mem_get_object_def mem_entry_def example_bucket_def
  no_such_bucket_def access_denied_def error_text_def bucket_name_def






lemma two_objects_run:
  "check_s3_data example_lib mem_client two_objects =
     (Returned,
      \<lparr>printed =
         [files_header,
          file_line \<lparr>Key = ''a.json'', Size = 28\<rparr>,
          file_line \<lparr>Key = ''b.txt'', Size = 11\<rparr>,
          content_header ''a.json'', rule80,
          structure_line, records_line 3, sample_line, example_dumps (id_record 1),
          content_header ''b.txt'', rule80,
          not_json_line, ''hello world'',
          footer],
       calls = [ListObjectsV2 bucket_name, GetObject bucket_name ''a.json'',
                GetObject bucket_name ''b.txt''],
       store = two_objects\<rparr>)"
  by (simp add: check_s3_data_def check_body_def get_contents_def start_def
      Let_def say_def issue_def show_content_def
      two_objects_def mem_client_def mem_list_objects_v2_def mem_get_object_def
      mem_entry_def example_bucket_def
      example_lib_def example_loads_def id_array_def id_object_def numeral_3_eq_3)


lemma mem_create_fresh:
  "create_bucket mem_client bucket_name [] = (Inr (), example_bucket [])"
  by (simp add: mem_client_def mem_create_bucket_def example_bucket_def)

lemma mem_list_created:
  "list_buckets mem_client (example_bucket []) = (Inr [bucket_name], example_bucket [])"
  by (simp add: mem_client_def mem_list_buckets_def example_bucket_def)

lemma mem_create_again:
  "create_bucket mem_client bucket_name (example_bucket []) =
     (Inl (ClientError ''BucketAlreadyOwnedByYou'' already_owned_text), example_bucket [])"
  by (simp add: mem_client_def mem_create_bucket_def example_bucket_def already_owned_text_def)

section \<open>The claims\<close>

subsection \<open>C1\<close>




subsection \<open>C2\<close>

text \<open>
  Claim C2. When the store answers \<open>create_bucket\<close> with \<open>BucketAlreadyOwnedByYou\<close>, the
  provisioner prints the one line that the bucket already exists, makes no other call
  and returns. When the store accepts the creation, lists its buckets, and answers a
  second creation with \<open>BucketAlreadyOwnedByYou\<close>, two runs in a row print the created
  message with the buckets, then the already-exists message; both return.
\<close>

theorem already_owned_is_success:
  "(create_bucket c bucket_name s = (Inl (ClientError ''BucketAlreadyOwnedByYou'' detail), s1) \<longrightarrow>
      create_s3_bucket c s =
        (Returned, \<lparr>printed = [check_mark @ '' Bucket test-data-lake already exists''],
                     calls = [CreateBucket bucket_name], store = s1\<rparr>)) \<and>
   (create_bucket c bucket_name s = (Inr (), s1) \<and>
    list_buckets c s1 = (Inr names, s2) \<and>
    create_bucket c bucket_name s2 =
      (Inl (ClientError ''BucketAlreadyOwnedByYou'' detail), s3) \<longrightarrow>
      create_s3_bucket c s =
        (Returned, \<lparr>printed = created_line # available_header # map bucket_line names,
                     calls = [CreateBucket bucket_name, ListBuckets], store = s2\<rparr>) \<and>
      create_s3_bucket c (store (snd (create_s3_bucket c s))) =
        (Returned, \<lparr>printed = [exists_line],
                     calls = [CreateBucket bucket_name], store = s3\<rparr>))"
  by (simp add: create_s3_bucket_def create_body_def say_def issue_def start_def Let_def
      exists_line_def bucket_name_def)

text \<open>
  On the in-memory store: two runs from the store without buckets, and one run on a
  store that has the bucket.
\<close>

theorem already_owned_is_success_witness:
  "create_s3_bucket mem_client [] =
     (Returned, \<lparr>printed = [created_line, available_header, ''  - test-data-lake''],
                  calls = [CreateBucket bucket_name, ListBuckets],
                  store = example_bucket []\<rparr>) \<and>
   create_s3_bucket mem_client (store (snd (create_s3_bucket mem_client []))) =
     (Returned, \<lparr>printed = [exists_line], calls = [CreateBucket bucket_name],
                  store = example_bucket []\<rparr>) \<and>
   create_s3_bucket mem_client (example_bucket []) =
     (Returned, \<lparr>printed = [check_mark @ '' Bucket test-data-lake already exists''],
                  calls = [CreateBucket bucket_name], store = example_bucket []\<rparr>)"
  using already_owned_is_success [of mem_client "[]" already_owned_text "example_bucket []" "[bucket_name]"
              "example_bucket []" "example_bucket []"]
    already_owned_is_success [of mem_client "example_bucket []" already_owned_text "example_bucket []"]
    mem_create_fresh mem_list_created mem_create_again
  by (simp add: bucket_line_def bucket_name_def exists_line_def)

subsection \<open>C3\<close>



subsection \<open>C4\<close>




subsection \<open>C5\<close>



subsection \<open>C6\<close>



subsection \<open>C7\<close>

text \<open>
  Claim C7. For a listing without objects the inspector prints the header and the
  closing rule, issues the listing call and no other, and returns.
\<close>

theorem empty_bucket_run:
  assumes "list_objects_v2 c bucket_name s = (Inr objects, s1)"
    and "get_contents objects = []"
  shows "check_s3_data lib c s =
         (Returned, \<lparr>printed = [files_header, footer],
                      calls = [ListObjectsV2 bucket_name], store = s1\<rparr>)"
  using assms by (simp add: check_s3_data_def check_body_listed say_def)

text \<open>
  The bucket without objects, whose listing has no \<open>'Contents'\<close>.
\<close>

theorem empty_bucket_run_witness:
  "check_s3_data example_lib mem_client (example_bucket []) =
     (Returned, \<lparr>printed = [files_header, footer],
                  calls = [ListObjectsV2 bucket_name], store = example_bucket []\<rparr>)"
proof -
  have h1: "list_objects_v2 mem_client bucket_name (example_bucket []) =
            (Inr \<lparr>Contents = None\<rparr>, example_bucket [])"
    by (simp add: mem_defs)
  have h2: "get_contents \<lparr>Contents = None\<rparr> = []"
    by (simp add: get_contents_def)
  show ?thesis using empty_bucket_run [OF h1 h2] .
qed

subsection \<open>C8\<close>

text \<open>
  Claim C8. Every call that a run of the inspector issues, whatever the store answers,
  only reads; and if the two calls it uses leave the store as it is, so does the run.
\<close>

theorem inspector_read_only:
  "(\<forall>cl \<in> set (calls (snd (check_s3_data lib c s))). read_only cl) \<and>
   ((\<forall>t. snd (list_objects_v2 c bucket_name t) = t) \<and>
    (\<forall>k t. snd (get_object c bucket_name k t) = t) \<longrightarrow>
    store (snd (check_s3_data lib c s)) = s)"
proof (cases "list_objects_v2 c bucket_name s")
  case (Pair response s1)
  have same: "s1 = s" if "\<forall>t. snd (list_objects_v2 c bucket_name t) = t"
    using that Pair by (metis snd_conv)
  show ?thesis
  proof (cases response)
    case (Inl e)
    with Pair same show ?thesis
      by (auto simp: check_s3_data_calls check_s3_data_store check_s3_data_listing_error)
  next
    case (Inr objects)
    let ?r1 = "\<lparr>printed = files_header # map file_line (get_contents objects),
                calls = [ListObjectsV2 bucket_name], store = s1\<rparr>"
    let ?res = "inspect_objects lib c (get_contents objects) ?r1"
    have body: "calls (snd (check_body lib c s)) = calls (snd ?res) \<and>
                store (snd (check_body lib c s)) = store (snd ?res)"
      using Pair Inr by (cases ?res) (auto simp: check_body_listed say_def split: option.splits)
    obtain n where n: "calls (snd ?res) =
        calls ?r1 @ map (\<lambda>obj. GetObject bucket_name (Key obj)) (take n (get_contents objects))"
      using inspect_calls by blast
    have reads: "\<forall>cl \<in> set (calls (snd (check_s3_data lib c s))). read_only cl"
      using body n by (auto simp: check_s3_data_calls)
    have frame: "store (snd (check_s3_data lib c s)) = s"
      if "\<forall>t. snd (list_objects_v2 c bucket_name t) = t"
        and "\<forall>k t. snd (get_object c bucket_name k t) = t"
    proof -
      have "store (snd ?res) = store ?r1"
        using that(2) by (intro inspect_store) simp
      with same [OF that(1)] show ?thesis
        using body by (simp add: check_s3_data_store)
    qed
    from reads frame show ?thesis by blast
  qed
qed

text \<open>
  The bucket with two objects: the run issues three calls, all of them reads, and the
  store is the same afterwards.
\<close>

theorem inspector_read_only_witness:
  "list_all read_only (calls (snd (check_s3_data example_lib mem_client two_objects))) \<and>
   store (snd (check_s3_data example_lib mem_client two_objects)) = two_objects \<and>
   calls (snd (check_s3_data example_lib mem_client two_objects)) =
     [ListObjectsV2 bucket_name, GetObject bucket_name ''a.json'', GetObject bucket_name ''b.txt'']"
proof -
  have h1: "\<forall>t. snd (list_objects_v2 mem_client bucket_name t) = t"
    by (simp add: mem_client_def mem_list_objects_v2_def split: option.splits)
  have h2: "\<forall>k t. snd (get_object mem_client bucket_name k t) = t"
    by (simp add: mem_client_def mem_get_object_def split: option.splits)
  have reads: "\<forall>cl \<in> set (calls (snd (check_s3_data example_lib mem_client two_objects))).
      read_only cl"
    using inspector_read_only [of example_lib mem_client two_objects] by blast
  have same: "store (snd (check_s3_data example_lib mem_client two_objects)) = two_objects"
    using h1 h2 inspector_read_only [of example_lib mem_client two_objects] by blast
  have issued: "calls (snd (check_s3_data example_lib mem_client two_objects)) =
      [ListObjectsV2 bucket_name, GetObject bucket_name ''a.json'', GetObject bucket_name ''b.txt'']"
    by (simp add: two_objects_run)
  from reads have "list_all read_only (calls (snd (check_s3_data example_lib mem_client two_objects)))"
    by (simp only: list_all_iff)
  with same issued show ?thesis by blast
qed

subsection \<open>C9\<close>



subsection \<open>C10\<close>

text \<open>
  Claim C10. The provisioner calls \<open>list_buckets\<close> exactly when \<open>create_bucket\<close> returned
  without an exception; it then prints the names of the buckets; when \<open>create_bucket\<close>
  reports \<open>BucketAlreadyOwnedByYou\<close> it prints the already-exists line alone and issues
  no other call.
\<close>

theorem list_buckets_only_after_creation:
  "(ListBuckets \<in> set (calls (snd (create_s3_bucket c s))) \<longleftrightarrow>
      fst (create_bucket c bucket_name s) = Inr ()) \<and>
   (create_bucket c bucket_name s = (Inr (), s1) \<and> list_buckets c s1 = (Inr names, s2) \<longrightarrow>
      printed (snd (create_s3_bucket c s)) =
        created_line # available_header # map bucket_line names) \<and>
   (create_bucket c bucket_name s = (Inl (ClientError ''BucketAlreadyOwnedByYou'' detail), s1) \<longrightarrow>
      printed (snd (create_s3_bucket c s)) = [exists_line] \<and>
      calls (snd (create_s3_bucket c s)) = [CreateBucket bucket_name])"
proof (intro conjI impI)
  show "ListBuckets \<in> set (calls (snd (create_s3_bucket c s))) \<longleftrightarrow>
      fst (create_bucket c bucket_name s) = Inr ()"
  proof (cases "create_bucket c bucket_name s")
    case (Pair created t)
    show ?thesis
    proof (cases created)
      case (Inl e)
      with Pair show ?thesis
        by (cases e)
           (simp_all add: create_s3_bucket_def create_body_def say_def issue_def start_def)
    next
      case (Inr u)
      obtain buckets t' where lb: "list_buckets c t = (buckets, t')"
        by (cases "list_buckets c t")
      have "calls (snd (create_body c s)) = [CreateBucket bucket_name, ListBuckets]"
        using Pair Inr lb
        by (cases buckets)
           (simp_all add: create_body_def say_def issue_def start_def Let_def)
      moreover have "calls (snd (create_s3_bucket c s)) = calls (snd (create_body c s))"
        by (cases "create_body c s")
           (auto simp: create_s3_bucket_def say_def split: option.splits exn.splits)
      ultimately show ?thesis using Pair Inr by simp
    qed
  qed
next
  assume "create_bucket c bucket_name s = (Inr (), s1) \<and> list_buckets c s1 = (Inr names, s2)"
  then show "printed (snd (create_s3_bucket c s)) =
        created_line # available_header # map bucket_line names"
    by (simp add: create_s3_bucket_def create_body_def say_def issue_def start_def Let_def)
next
  assume a: "create_bucket c bucket_name s =
    (Inl (ClientError ''BucketAlreadyOwnedByYou'' detail), s1)"
  then show "printed (snd (create_s3_bucket c s)) = [exists_line]"
    by (simp add: create_s3_bucket_def create_body_def say_def issue_def start_def)
  from a show "calls (snd (create_s3_bucket c s)) = [CreateBucket bucket_name]"
    by (simp add: create_s3_bucket_def create_body_def say_def issue_def start_def)
qed

text \<open>
  On the in-memory store: a run that creates the bucket and a run that finds it.
\<close>

theorem list_buckets_only_after_creation_witness:
  "ListBuckets \<in> set (calls (snd (create_s3_bucket mem_client []))) \<and>
   ListBuckets \<notin> set (calls (snd (create_s3_bucket mem_client (example_bucket [])))) \<and>
   printed (snd (create_s3_bucket mem_client [])) =
     [created_line, available_header, ''  - test-data-lake''] \<and>
   printed (snd (create_s3_bucket mem_client (example_bucket []))) = [exists_line] \<and>
   calls (snd (create_s3_bucket mem_client (example_bucket []))) = [CreateBucket bucket_name]"
  using list_buckets_only_after_creation [of mem_client "[]" "example_bucket []" "[bucket_name]" "example_bucket []"]
    list_buckets_only_after_creation [of mem_client "example_bucket []" "example_bucket []" _ _ already_owned_text]
    mem_create_fresh mem_list_created mem_create_again
  by (simp add: bucket_line_def bucket_name_def exists_line_def)

end
